theory Spec2Isabelle
  imports Main "HOL-Library.Signed_Division"
begin

section \<open>JavaScript values used by the front end\<close>

text \<open>
  The components under \<open>src/fronted/src\<close> are React function components. Their state
  (\<open>useState\<close>) is modelled by explicit state passing: every handler takes the
  current state and returns the next one.

  A JavaScript value, as far as the translation lookup needs it. \<open>JNum\<close> holds the
  integral numbers (\<open>0\<close> is the falsy one, as \<open>-0\<close> is), \<open>JNaN\<close> is the
  not-a-number value and \<open>JObj\<close> stands for any object or function, named by a number.
\<close>

datatype jsval =
    JUndefined
  | JNull
  | JBool bool
  | JNum int
  | JNaN
  | JStr string
  | JObj nat

text \<open>JavaScript's \<open>ToBoolean\<close>: what \<open>||\<close> tests on its left operand.\<close>

fun truthy :: "jsval \<Rightarrow> bool" where
  "truthy JUndefined = False"
| "truthy JNull = False"
| "truthy (JBool b) = b"
| "truthy (JNum n) = (n \<noteq> 0)"
| "truthy JNaN = False"
| "truthy (JStr s) = (s \<noteq> [])"
| "truthy (JObj r) = True"

text \<open>\<open>a || b\<close>: the left operand when it is truthy, the right one otherwise.\<close>

definition js_or :: "jsval \<Rightarrow> jsval \<Rightarrow> jsval" where
  "js_or a b = (if truthy a then a else b)"

text \<open>
  An object as the map from its property names to their values: every property a read
  finds, the inherited ones included. Reading a property the object does not have gives
  \<open>undefined\<close>; it never raises.
\<close>

type_synonym jsobject = "string \<rightharpoonup> jsval"

definition js_get :: "jsobject \<Rightarrow> string \<Rightarrow> jsval" where
  "js_get obj key = (case obj key of None \<Rightarrow> JUndefined | Some v \<Rightarrow> v)"

datatype js_error = TypeError

text \<open>
  A state variable that holds a string or \<open>undefined\<close> (\<open>None\<close>). Used as a property
  name, \<open>undefined\<close> is the string \<open>"undefined"\<close>.
\<close>

definition property_key :: "string option \<Rightarrow> string" where
  "property_key v = (case v of None \<Rightarrow> ''undefined'' | Some s \<Rightarrow> s)"

text \<open>
  \<open>Array.prototype.indexOf\<close>: the first index whose element is strictly equal to the
  argument, \<open>-1\<close> when there is none.
\<close>

primrec indexOf_from :: "int \<Rightarrow> 'a list \<Rightarrow> 'a \<Rightarrow> int" where
  "indexOf_from i [] x = -1"
| "indexOf_from i (y # ys) x = (if y = x then i else indexOf_from (i + 1) ys x)"

definition indexOf :: "'a list \<Rightarrow> 'a \<Rightarrow> int" where
  "indexOf xs x = indexOf_from 0 xs x"

text \<open>
  \<open>xs[i]\<close> for an array and an integral index: the element, or \<open>undefined\<close>
  (\<open>None\<close>) when the index is out of range.
\<close>

definition js_index :: "'a list \<Rightarrow> int \<Rightarrow> 'a option" where
  "js_index xs i = (if 0 \<le> i \<and> i < int (length xs) then Some (xs ! nat i) else None)"

text \<open>
  \<open>a % b\<close> on integers with \<open>b \<noteq> 0\<close>: the remainder of the truncating division,
  with the sign of \<open>a\<close>.
\<close>

definition js_rem :: "int \<Rightarrow> int \<Rightarrow> int" where
  "js_rem a b = a smod b"

section \<open>Header.jsx: toggleLang\<close>

text \<open>
  \<^verbatim>\<open>
  const toggleLang = () => {
    const langs = ['zh', 'en', 'ja'];
    const nextIndex = (langs.indexOf(lang) + 1) % langs.length;
    setLang(langs[nextIndex]);
  };
  \<close>
  \<open>lang\<close> is the state of \<open>LanguageProvider\<close> (\<open>useState('zh')\<close>); \<open>toggleLang\<close>
  maps the current value to the one \<open>setLang\<close> stores.
\<close>

definition langs :: "string list" where
  "langs = [''zh'', ''en'', ''ja'']"

definition initial_lang :: "string option" where
  "initial_lang = Some ''zh''"

definition toggleLang :: "string option \<Rightarrow> string option" where
  "toggleLang lang =
     (let found = (case lang of None \<Rightarrow> -1 | Some l \<Rightarrow> indexOf langs l);
          nextIndex = js_rem (found + 1) (int (length langs))
      in js_index langs nextIndex)"

section \<open>LanguageContext.jsx: t\<close>

text \<open>
  \<^verbatim>\<open>
  const t = (key) => {
    return translations[lang][key] || key;
  };
  \<close>
  The table \<open>translations\<close> is imported from \<open>../i18n/translations\<close>, which is not
  among the sources: it is a parameter \<open>tr\<close> here, a map from a language to the object
  of that language. \<open>tr[lang]\<close> is \<open>undefined\<close> for a language the table lacks, and
  reading a property of \<open>undefined\<close> raises a \<open>TypeError\<close>.
\<close>

definition t :: "(string \<rightharpoonup> jsobject) \<Rightarrow> string option \<Rightarrow> string \<Rightarrow> js_error + jsval" where
  "t tr lang key =
     (case tr (property_key lang) of
        None \<Rightarrow> Inl TypeError
      | Some table \<Rightarrow> Inr (js_or (js_get table key) (JStr key)))"

section \<open>MonkeyGrid: paging\<close>

text \<open>
  The state of \<open>MonkeyGrid\<close>: its \<open>useState\<close> variables, but for \<open>particles\<close>, which
  only feeds the click animation and is never read by the paging.
\<close>

record 'a grid =
  items :: "'a list"
  displayedItems :: "'a list"
  page :: nat
  loading :: bool
  hasMore :: bool

definition PAGE_SIZE :: nat where
  "PAGE_SIZE = 24"

text \<open>\<open>xs.slice(0, n)\<close> for \<open>n \<ge> 0\<close>: the first \<open>n\<close> elements, all of them when there are fewer.\<close>

definition slice0 :: "'a list \<Rightarrow> nat \<Rightarrow> 'a list" where
  "slice0 xs n = take n xs"

text \<open>The initial values of the \<open>useState\<close> calls.\<close>

definition initial_grid :: "'a grid" where
  "initial_grid = \<lparr>items = [], displayedItems = [], page = 1, loading = True, hasMore = True\<rparr>"

text \<open>
  The effect that runs once after mounting: the manifest is fetched and, when it arrives,
  \<^verbatim>\<open>
  setItems(data);
  setDisplayedItems(data.slice(0, PAGE_SIZE));
  setLoading(false);
  \<close>
  and when the fetch fails only \<open>setLoading(false)\<close>.
\<close>

definition manifest_loaded :: "'a list \<Rightarrow> 'a grid \<Rightarrow> 'a grid" where
  "manifest_loaded data g =
     g\<lparr>items := data, displayedItems := slice0 data PAGE_SIZE, loading := False\<rparr>"

definition manifest_failed :: "'a grid \<Rightarrow> 'a grid" where
  "manifest_failed g = g\<lparr>loading := False\<rparr>"

text \<open>
  \<^verbatim>\<open>
  const loadMore = (e) => {
    if (!hasMore) return;
    ...
    setLoading(true);
    setTimeout(() => {
      const nextPage = page + 1;
      const nextItems = items.slice(0, nextPage * PAGE_SIZE);
      setDisplayedItems(nextItems);
      setPage(nextPage);
      setLoading(false);
      if (nextItems.length >= items.length) setHasMore(false);
    }, 600);
  };
  \<close>
  One click together with its timer callback. The button is disabled while \<open>loading\<close>
  holds, so no other click falls between the two, and the callback reads the \<open>page\<close>
  and \<open>items\<close> of the click.
\<close>

definition loadMore :: "'a grid \<Rightarrow> 'a grid" where
  "loadMore g =
     (if \<not> hasMore g then g
      else
        let nextPage = page g + 1;
            nextItems = slice0 (items g) (nextPage * PAGE_SIZE)
        in g\<lparr>displayedItems := nextItems,
              page := nextPage,
              loading := False,
              hasMore := (if length nextItems \<ge> length (items g) then False else hasMore g)\<rparr>)"

text \<open>The state after the manifest \<open>data\<close> has arrived and the button was clicked \<open>n\<close> times.\<close>

definition after_clicks :: "'a list \<Rightarrow> nat \<Rightarrow> 'a grid" where
  "after_clicks data n = (loadMore ^^ n) (manifest_loaded data initial_grid)"

section \<open>The batch pipeline\<close>

text \<open>
  The README names the scripts of the pipeline (\<open>crawl_pighub_images.py\<close>,
  \<open>ai_monkey_ip_batch.py\<close>) with their files \<open>manifest.jsonl\<close> and \<open>failed.txt\<close> and
  their options (\<open>--max-rounds\<close>, \<open>--settle-rounds\<close>, \<open>--concurrency\<close>, \<open>--timeout\<close>,
  \<open>--retries\<close>, \<open>--no-resume\<close>). The scripts themselves are not among the sources, so
  the definitions of this section follow the specification, sections 3, 4.1 and 4.3.
\<close>

subsection \<open>Data model\<close>

text \<open>
  Modelled from the spec: the \<open>WorkItem\<close> of the missing scripts,
  \<open>{ id: string, sourceLocator: string }\<close>.
\<close>

record workitem =
  item_id :: string
  sourceLocator :: string

text \<open>
  Modelled from the spec: the per-item errors of the missing Processing Function and pool
  (section 7): \<open>FetchError\<close>, \<open>TransformError\<close> and \<open>TimeoutError\<close>.
\<close>

datatype item_error = FetchError | TransformError | TimeoutError

text \<open>
  Modelled from the spec: the errors of the missing scripts that end a run (section 7).
\<close>

datatype fatal = DiscoveryError | JournalWriteError

text \<open>
  Modelled from the spec: the \<open>Outcome\<close> of the missing pool, the tagged variant
  \<open>Success{ id, outputPath, sizeBytes, timestamp }\<close> or \<open>Failure{ id, reason, timestamp }\<close>.
\<close>

datatype outcome =
    Success string string nat nat
  | Failure string item_error nat

text \<open>
  Modelled from the spec: the \<open>RunConfig\<close> of the missing scripts,
  \<open>{ outputDir, concurrency, maxRounds, settleRounds, timeoutMs, maxRetries, resume }\<close>.
\<close>

record config =
  outputDir :: string
  concurrency :: nat
  maxRounds :: nat
  settleRounds :: nat
  timeoutMs :: nat
  maxRetries :: nat
  resume :: bool

subsection \<open>Manifest Store\<close>

text \<open>
  Modelled from the spec: a decoded line of the missing scripts' journal. A success line
  is one JSON object with the required fields \<open>id\<close>, \<open>outputPath\<close> and \<open>timestamp\<close>.
\<close>

record manifest_record =
  record_id :: string
  record_outputPath :: string
  record_timestamp :: nat

text \<open>
  Modelled from the spec: the JSON encoding of the missing scripts' journal. The decoder of
  one line is a parameter: \<open>None\<close> for a line that is not a JSON object with the
  required fields (a malformed or truncated line), the record otherwise. The encoder
  writes the line of a record.
\<close>

type_synonym decoder = "string \<Rightarrow> manifest_record option"

type_synonym encoder = "manifest_record \<Rightarrow> string"

text \<open>
  Modelled from the spec: the state of the missing Manifest Store (section 4.1). The
  journal file as its lines in append order, the set of seen IDs that is loaded once at
  startup, and the failure list with one entry (identifier and reason) per \<open>Failure\<close>.
\<close>

record store =
  journal :: "string list"
  seen :: "string set"
  failures :: "(string \<times> item_error) list"

text \<open>
  Modelled from the spec: the missing load loop of the Manifest Store: "parse the
  existing journal line-by-line, skipping malformed lines; build the seen-ID set from
  valid lines only".
\<close>

fun load_lines :: "decoder \<Rightarrow> string list \<Rightarrow> string set \<Rightarrow> string set" where
  "load_lines decode [] ids = ids"
| "load_lines decode (l # ls) ids =
     (case decode l of
        None \<Rightarrow> load_lines decode ls ids
      | Some r \<Rightarrow> load_lines decode ls (insert (record_id r) ids))"

text \<open>
  Modelled from the spec: the missing startup of the Manifest Store: "on startup, if
  \<open>resume=true\<close>, parse the existing journal". \<open>lines\<close> is the journal file as found and
  \<open>failed\<close> the failure list as found.
\<close>

definition startup :: "decoder \<Rightarrow> config \<Rightarrow> string list \<Rightarrow> (string \<times> item_error) list \<Rightarrow> store" where
  "startup decode cfg lines failed =
     \<lparr>journal = lines,
      seen = (if resume cfg then load_lines decode lines {} else {}),
      failures = failed\<rparr>"

text \<open>
  Modelled from the spec: \<open>has(id)\<close> of the missing Manifest Store, answered from the
  set of seen IDs, "not re-read per call".
\<close>

definition has :: "store \<Rightarrow> string \<Rightarrow> bool" where
  "has st i = (i \<in> seen st)"

text \<open>
  Modelled from the spec: \<open>recordSuccess\<close> of the missing Manifest Store, for the
  outcome \<open>Success{ id, outputPath, sizeBytes, timestamp }\<close>: appends the line of its
  record to the journal and marks the id as seen. \<open>writable\<close> says whether the append
  to the journal as it stands succeeds; when it does not, the write failure is the fatal
  \<open>JournalWriteError\<close>.
\<close>

definition recordSuccess ::
  "encoder \<Rightarrow> (string list \<Rightarrow> bool) \<Rightarrow> store \<Rightarrow> string \<Rightarrow> string \<Rightarrow> nat \<Rightarrow> nat
     \<Rightarrow> fatal + store" where
  "recordSuccess encode writable st i path bytes stamp =
     (if writable (journal st)
      then Inr (st\<lparr>journal := journal st
                    @ [encode \<lparr>record_id = i, record_outputPath = path, record_timestamp = stamp\<rparr>],
                  seen := insert i (seen st)\<rparr>)
      else Inl JournalWriteError)"

text \<open>
  Modelled from the spec: \<open>recordFailure\<close> of the missing Manifest Store, for the
  outcome \<open>Failure{ id, reason, timestamp }\<close>: "appends to the failure list; does not
  mark the id as seen".
\<close>

definition recordFailure :: "store \<Rightarrow> string \<Rightarrow> item_error \<Rightarrow> nat \<Rightarrow> store" where
  "recordFailure st i reason stamp = st\<lparr>failures := failures st @ [(i, reason)]\<rparr>"

text \<open>
  Modelled from the spec: the missing recording of an outcome, by its tag.
\<close>

fun record_outcome :: "encoder \<Rightarrow> (string list \<Rightarrow> bool) \<Rightarrow> store \<Rightarrow> outcome \<Rightarrow> fatal + store" where
  "record_outcome encode writable st (Success i path bytes stamp) =
     recordSuccess encode writable st i path bytes stamp"
| "record_outcome encode writable st (Failure i reason stamp) =
     Inr (recordFailure st i reason stamp)"

text \<open>
  Modelled from the spec: the missing step between the Item Source and the pool: a work
  item is "dropped if already a \<open>Success\<close> and \<open>resume=true\<close>", the remaining items
  are submitted to the Bounded Work Pool.
\<close>

definition submitted :: "config \<Rightarrow> store \<Rightarrow> workitem list \<Rightarrow> workitem list" where
  "submitted cfg st ws = filter (\<lambda>w. \<not> (resume cfg \<and> has st (item_id w))) ws"

subsection \<open>Bounded Work Pool: one item\<close>

text \<open>
  Modelled from the spec: what one invocation of the missing Processing Function gives:
  the output it wrote (path and size in bytes) or the error it failed with.
\<close>

datatype attempt = Done string nat | Error item_error

text \<open>
  Modelled from the spec: the missing Processing Function, an external collaborator with
  effects: \<open>process w k\<close> is what its invocation number \<open>k\<close> (from \<open>0\<close>) on the item
  \<open>w\<close> does: the milliseconds it runs and its result.
\<close>

type_synonym processing = "workitem \<Rightarrow> nat \<Rightarrow> nat \<times> attempt"

text \<open>
  Modelled from the spec: the missing timeout wrapper of the pool: "exceeding
  \<open>timeoutMs\<close> yields \<open>Failure{reason: "timeout"}\<close>".
\<close>

definition with_timeout :: "nat \<Rightarrow> nat \<times> attempt \<Rightarrow> attempt" where
  "with_timeout limit call = (if fst call > limit then Error TimeoutError else snd call)"

text \<open>
  Modelled from the spec: what the missing pool does with one item, in the order it does
  it: it invokes the Processing Function (\<open>Invoke w k\<close>, the invocation number \<open>k\<close>)
  and later knows the outcome of that invocation (\<open>Known w k r\<close>).
\<close>

datatype event = Invoke workitem nat | Known workitem nat attempt

text \<open>
  Modelled from the spec: the "total attempts" of the missing pool on an item: the number
  of invocations of the Processing Function among its events.
\<close>

fun is_Invoke :: "event \<Rightarrow> bool" where
  "is_Invoke (Invoke w k) = True"
| "is_Invoke (Known w k r) = False"

definition invocations :: "event list \<Rightarrow> nat" where
  "invocations evs = length (filter is_Invoke evs)"

text \<open>
  Modelled from the spec: the missing retry loop of the pool: "on \<open>Failure\<close>,
  re-attempt up to \<open>maxRetries\<close> times", each retry after the prior attempt's outcome is
  known. \<open>attempts process limit w k n\<close> makes the invocation number \<open>k\<close> with \<open>n\<close>
  retries left, and gives the events in order and the final result.
\<close>

fun attempts :: "processing \<Rightarrow> nat \<Rightarrow> workitem \<Rightarrow> nat \<Rightarrow> nat \<Rightarrow> event list \<times> attempt" where
  "attempts process limit w k 0 =
     (let r = with_timeout limit (process w k) in ([Invoke w k, Known w k r], r))"
| "attempts process limit w k (Suc n) =
     (let r = with_timeout limit (process w k) in
      case r of
        Done path bytes \<Rightarrow> ([Invoke w k, Known w k r], r)
      | Error e \<Rightarrow>
          (let (evs, final) = attempts process limit w (Suc k) n
           in (Invoke w k # Known w k r # evs, final)))"

text \<open>
  Modelled from the spec: the outcome the missing pool emits for an item from the result
  of its last attempt. \<open>now\<close> is the timestamp of the outcome.
\<close>

fun outcome_of :: "workitem \<Rightarrow> nat \<Rightarrow> attempt \<Rightarrow> outcome" where
  "outcome_of w now (Done path bytes) = Success (item_id w) path bytes now"
| "outcome_of w now (Error e) = Failure (item_id w) e now"

text \<open>
  Modelled from the spec: the missing worker of the pool for one admitted item: the
  attempts, then "per-item outcome, success or exhausted-failure, is recorded to the
  Manifest Store exactly once". It gives the events in order, the outcome, and the store
  after the record (or the fatal error of the record).
\<close>

definition work ::
  "config \<Rightarrow> processing \<Rightarrow> encoder \<Rightarrow> (string list \<Rightarrow> bool) \<Rightarrow> nat \<Rightarrow> store \<Rightarrow> workitem
     \<Rightarrow> event list \<times> outcome \<times> (fatal + store)" where
  "work cfg process encode writable now st w =
     (let (evs, final) = attempts process (timeoutMs cfg) w 0 (maxRetries cfg);
          out = outcome_of w now final
      in (evs, out, record_outcome encode writable st out))"

section \<open>Properties of the front end\<close>

subsection \<open>toggleLang\<close>

lemma toggleLang_steps:
  "toggleLang (Some ''zh'') = Some ''en''"
  "toggleLang (Some ''en'') = Some ''ja''"
  "toggleLang (Some ''ja'') = Some ''zh''"
  by (simp_all add: toggleLang_def langs_def indexOf_def js_rem_def js_index_def
      signed_modulo_int_def)

text \<open>
  A value that is none of the three languages (\<open>undefined\<close> included) has index \<open>-1\<close>,
  so the next language is the first one.
\<close>

lemma toggleLang_unknown:
  "lang \<notin> Some ` set langs \<Longrightarrow> toggleLang lang = Some ''zh''"
  by (cases lang)
    (auto simp add: toggleLang_def langs_def indexOf_def js_rem_def js_index_def
      signed_modulo_int_def)

text \<open>
  Claim C9. \<open>toggleLang\<close> takes \<open>zh\<close> to \<open>en\<close>, \<open>en\<close> to \<open>ja\<close> and \<open>ja\<close> back to
  \<open>zh\<close>. So for every starting language among the three, the next language is again one
  of the three and differs from the starting one, and three applications give the
  starting language back.
\<close>

theorem toggleLang_cycle:
  assumes "lang \<in> set langs"
  shows "toggleLang (Some ''zh'') = Some ''en''
    \<and> toggleLang (Some ''en'') = Some ''ja''
    \<and> toggleLang (Some ''ja'') = Some ''zh''
    \<and> toggleLang (Some lang) \<in> Some ` set langs
    \<and> toggleLang (Some lang) \<noteq> Some lang
    \<and> toggleLang (toggleLang (toggleLang (Some lang))) = Some lang"
  using assms by (auto simp add: toggleLang_steps langs_def)

theorem toggleLang_cycle_witness:
  "''en'' \<in> set langs
    \<and> toggleLang (Some ''en'') = Some ''ja''
    \<and> toggleLang (toggleLang (toggleLang (Some ''en''))) = Some ''en''"
  using toggleLang_cycle [of "''en''"] by (simp add: langs_def)

subsection \<open>t\<close>

text \<open>
  Claim C10, as stated, fails for the empty key: with no truthy entry for it the result
  is the key itself, the empty string. Here the table has an object for \<open>zh\<close> with the
  one entry \<open>title\<close>.
\<close>

theorem t_empty_key:
  "t [''zh'' \<mapsto> [''title'' \<mapsto> JStr ''MonkeyHub'']] (Some ''zh'') '''' = Inr (JStr '''')
    \<and> \<not> truthy (JStr '''')"
  by (simp add: t_def js_or_def js_get_def property_key_def)

text \<open>
  Claim C10, amended. For every key and every current language that has an object in the
  translation table, \<open>t\<close> does not raise: it returns the entry of the key in that object
  when the entry is truthy and the key itself otherwise. For every key but the empty
  string the result is truthy, so it is not empty.
\<close>

theorem t_entry_or_key:
  assumes "tr (property_key lang) = Some table"
  shows "t tr lang key
      = Inr (if truthy (js_get table key) then js_get table key else JStr key)
    \<and> (key \<noteq> [] \<longrightarrow> (\<exists>v. t tr lang key = Inr v \<and> truthy v))"
  using assms by (simp add: t_def js_or_def)

theorem t_entry_or_key_witness:
  "t [''zh'' \<mapsto> [''title'' \<mapsto> JStr ''MonkeyHub'']] (Some ''zh'') ''title'' = Inr (JStr ''MonkeyHub'')
    \<and> t [''zh'' \<mapsto> [''title'' \<mapsto> JStr ''MonkeyHub'']] (Some ''zh'') ''home'' = Inr (JStr ''home'')"
  using
    t_entry_or_key [of "[''zh'' \<mapsto> [''title'' \<mapsto> JStr ''MonkeyHub'']]" "Some ''zh''"
      "[''title'' \<mapsto> JStr ''MonkeyHub'']" "''title''"]
    t_entry_or_key [of "[''zh'' \<mapsto> [''title'' \<mapsto> JStr ''MonkeyHub'']]" "Some ''zh''"
      "[''title'' \<mapsto> JStr ''MonkeyHub'']" "''home''"]
  by (simp add: property_key_def js_get_def)

subsection \<open>MonkeyGrid\<close>

lemma loadMore_without_more: "\<not> hasMore g \<Longrightarrow> loadMore g = g"
  by (simp add: loadMore_def)

lemma after_clicks_Suc: "after_clicks data (Suc n) = loadMore (after_clicks data n)"
  by (simp add: after_clicks_def)

lemma after_clicks_items: "items (after_clicks data n) = data"
  by (induction n)
    (simp_all add: after_clicks_def manifest_loaded_def initial_grid_def loadMore_def Let_def)

text \<open>After the manifest has loaded, the displayed list is the prefix of \<open>page\<close> pages.\<close>

lemma after_clicks_prefix:
  "displayedItems (after_clicks data n) = slice0 data (page (after_clicks data n) * PAGE_SIZE)"
proof (induction n)
  case 0
  show ?case by (simp add: after_clicks_def manifest_loaded_def initial_grid_def)
next
  case (Suc n)
  then show ?case
    using after_clicks_items [of data n]
    by (simp add: after_clicks_Suc loadMore_def Let_def)
qed

text \<open>A click while \<open>hasMore\<close> holds extends the displayed prefix by at most one page.\<close>

lemma loadMore_grows:
  assumes "hasMore g" and "displayedItems g = slice0 (items g) (page g * PAGE_SIZE)"
  shows "displayedItems (loadMore g) = slice0 (items g) ((page g + 1) * PAGE_SIZE)"
    and "length (displayedItems (loadMore g)) \<le> length (displayedItems g) + PAGE_SIZE"
    and "take (length (displayedItems g)) (displayedItems (loadMore g)) = displayedItems g"
  using assms by (auto simp add: loadMore_def Let_def slice0_def min_def)

text \<open>Once \<open>hasMore\<close> is false the whole list is displayed.\<close>

lemma hasMore_false_covers:
  "\<not> hasMore (after_clicks data n) \<Longrightarrow> displayedItems (after_clicks data n) = data"
proof (induction n)
  case 0
  then show ?case by (simp add: after_clicks_def manifest_loaded_def initial_grid_def)
next
  case (Suc n)
  show ?case
  proof (cases "hasMore (after_clicks data n)")
    case False
    then show ?thesis
      using Suc.IH by (simp add: after_clicks_Suc loadMore_without_more)
  next
    case True
    then show ?thesis
      using Suc.prems after_clicks_items [of data n]
      by (simp add: after_clicks_Suc loadMore_def Let_def slice0_def split: if_splits)
  qed
qed

text \<open>After at least one click, \<open>hasMore\<close> is false exactly when the whole list is displayed.\<close>

lemma hasMore_after_click:
  "hasMore (after_clicks data (Suc n))
    \<longleftrightarrow> length (displayedItems (after_clicks data (Suc n))) < length data"
proof (cases "hasMore (after_clicks data n)")
  case False
  then show ?thesis
    using hasMore_false_covers [of data n] by (simp add: after_clicks_Suc loadMore_without_more)
next
  case True
  then show ?thesis
    using after_clicks_items [of data n]
    by (auto simp add: after_clicks_Suc loadMore_def Let_def)
qed

text \<open>
  Claim C8 at a manifest of three items, before any click. The first page already
  displays the whole list, and \<open>hasMore\<close> still holds: the effect that loads the manifest
  sets \<open>displayedItems\<close> and never \<open>hasMore\<close>. The first click displays nothing new and
  only then sets \<open>hasMore\<close> to false.
\<close>

theorem hasMore_stale_after_load:
  "displayedItems (after_clicks [''a'', ''b'', ''c''] 0) = items (after_clicks [''a'', ''b'', ''c''] 0)
    \<and> hasMore (after_clicks [''a'', ''b'', ''c''] 0)
    \<and> displayedItems (after_clicks [''a'', ''b'', ''c''] 1) = displayedItems (after_clicks [''a'', ''b'', ''c''] 0)
    \<and> \<not> hasMore (after_clicks [''a'', ''b'', ''c''] 1)"
  by (simp add: after_clicks_def manifest_loaded_def initial_grid_def loadMore_def slice0_def
      PAGE_SIZE_def Let_def)

section \<open>Properties of the batch pipeline\<close>

subsection \<open>Loading the journal\<close>

text \<open>The load loop adds the ids of the lines that decode, and nothing else.\<close>

lemma load_lines_ids:
  "load_lines decode ls ids = ids \<union> set (map record_id (List.map_filter decode ls))"
  by (induction ls arbitrary: ids) (auto simp add: List.map_filter_simps split: option.splits)

text \<open>
  Claim C1. Starting up with \<open>resume=true\<close> gives a store for every journal, and its
  seen-ID set holds the ids of the lines that decode, wherever the malformed lines stand.
  In particular when the final line \<open>bad\<close> is truncated or malformed (it does not
  decode): the journal is left as found, the seen IDs are those of the valid lines before
  it, \<open>has\<close> holds for each of them, and no item with such an id is submitted to the pool.
\<close>

theorem startup_skips_malformed:
  assumes "resume cfg" and "decode bad = None"
  shows "seen (startup decode cfg lines failed) = set (map record_id (List.map_filter decode lines))
    \<and> journal (startup decode cfg (ls @ [bad]) failed) = ls @ [bad]
    \<and> seen (startup decode cfg (ls @ [bad]) failed) = set (map record_id (List.map_filter decode ls))
    \<and> (\<forall>l r. l \<in> set ls \<and> decode l = Some r
          \<longrightarrow> has (startup decode cfg (ls @ [bad]) failed) (record_id r))
    \<and> (\<forall>w l r. l \<in> set ls \<and> decode l = Some r \<and> item_id w = record_id r
          \<longrightarrow> w \<notin> set (submitted cfg (startup decode cfg (ls @ [bad]) failed) ws))"
proof -
  let ?st = "startup decode cfg (ls @ [bad]) failed"
  have all: "seen (startup decode cfg lines failed) = set (map record_id (List.map_filter decode lines))"
    using assms(1) by (simp add: startup_def load_lines_ids)
  have s: "seen ?st = set (map record_id (List.map_filter decode ls))"
    using assms by (simp add: startup_def load_lines_ids List.map_filter_def)
  have h: "has ?st (record_id r)" if "l \<in> set ls" "decode l = Some r" for l r
  proof -
    from that have "r \<in> set (List.map_filter decode ls)"
      by (force simp add: List.map_filter_def)
    then show ?thesis unfolding has_def s by simp
  qed
  have j: "journal ?st = ls @ [bad]"
    by (simp add: startup_def)
  show ?thesis
    using all s h j assms(1) by (auto simp add: submitted_def)
qed

theorem startup_skips_malformed_witness:
  "seen (startup
      (\<lambda>l. if l = ''A'' then Some \<lparr>record_id = ''a'', record_outputPath = ''imgs/a.jpg'', record_timestamp = 1\<rparr>
           else None)
      \<lparr>outputDir = ''imgs'', concurrency = 8, maxRounds = 300, settleRounds = 6,
        timeoutMs = 900, maxRetries = 2, resume = True\<rparr>
      [''A'', ''{tr''] []) = {''a''}
   \<and> submitted
      \<lparr>outputDir = ''imgs'', concurrency = 8, maxRounds = 300, settleRounds = 6,
        timeoutMs = 900, maxRetries = 2, resume = True\<rparr>
      (startup
        (\<lambda>l. if l = ''A'' then Some \<lparr>record_id = ''a'', record_outputPath = ''imgs/a.jpg'', record_timestamp = 1\<rparr>
           else None)
        \<lparr>outputDir = ''imgs'', concurrency = 8, maxRounds = 300, settleRounds = 6,
          timeoutMs = 900, maxRetries = 2, resume = True\<rparr>
        [''A'', ''{tr''] [])
      [\<lparr>item_id = ''a'', sourceLocator = ''u/a''\<rparr>, \<lparr>item_id = ''b'', sourceLocator = ''u/b''\<rparr>]
     = [\<lparr>item_id = ''b'', sourceLocator = ''u/b''\<rparr>]"
  using startup_skips_malformed [of
      "\<lparr>outputDir = ''imgs'', concurrency = 8, maxRounds = 300, settleRounds = 6,
        timeoutMs = 900, maxRetries = 2, resume = True\<rparr>"
      "\<lambda>l. if l = ''A'' then Some \<lparr>record_id = ''a'', record_outputPath = ''imgs/a.jpg'', record_timestamp = 1\<rparr>
           else None"
      "''{tr''" "[]" "[]" "[''A'']"
      "[\<lparr>item_id = ''a'', sourceLocator = ''u/a''\<rparr>, \<lparr>item_id = ''b'', sourceLocator = ''u/b''\<rparr>]"]
  by (simp add: List.map_filter_simps submitted_def has_def)

subsection \<open>Retries\<close>

text \<open>
  When every invocation fails, the attempts from number \<open>k\<close> with \<open>n\<close> retries left are
  the invocations \<open>k\<close> to \<open>k + n\<close>, each followed by its outcome, and the final result is
  the last one's.
\<close>

lemma attempts_all_fail:
  assumes "\<forall>j. \<exists>e. with_timeout limit (process w j) = Error e"
  shows "attempts process limit w k n
      = (concat (map (\<lambda>j. [Invoke w j, Known w j (with_timeout limit (process w j))]) [k..<k + n + 1]),
         with_timeout limit (process w (k + n)))"
proof (induction n arbitrary: k)
  case 0
  show ?case by (simp add: Let_def)
next
  case (Suc n)
  from assms obtain e where e: "with_timeout limit (process w k) = Error e" by blast
  have up: "[k..<k + Suc n + 1] = k # [Suc k..<Suc k + n + 1]"
    by (simp add: upt_conv_Cons)
  show ?case
    using Suc.IH [of "Suc k"] e unfolding up
    by (simp add: Let_def)
qed

lemma invocations_pairs:
  "invocations (concat (map (\<lambda>j. [Invoke w j, Known w j (f j)]) js)) = length js"
  by (induction js) (simp_all add: invocations_def)

text \<open>
  Claim C3. When the Processing Function fails on every invocation for the item \<open>w\<close>
  (with an error of its own or by exceeding the timeout), the worker invokes it exactly
  \<open>maxRetries + 1\<close> times: the events are the invocations \<open>0\<close> to \<open>maxRetries\<close> in
  order, each followed by its outcome before the next invocation starts. The outcome is
  then a \<open>Failure\<close> with the error of the last attempt, and it is recorded: one entry
  more in the failure list, the journal and the seen IDs unchanged.
\<close>

theorem retry_exhaustion:
  assumes "\<forall>k. \<exists>e. with_timeout (timeoutMs cfg) (process w k) = Error e"
  shows "invocations (fst (work cfg process encode writable now st w)) = maxRetries cfg + 1
    \<and> (\<exists>e. with_timeout (timeoutMs cfg) (process w (maxRetries cfg)) = Error e
          \<and> work cfg process encode writable now st w
            = (concat (map (\<lambda>k. [Invoke w k, Known w k (with_timeout (timeoutMs cfg) (process w k))])
                 [0..<maxRetries cfg + 1]),
               Failure (item_id w) e now,
               Inr (st\<lparr>failures := failures st @ [(item_id w, e)]\<rparr>)))"
proof -
  let ?evs = "concat (map (\<lambda>k. [Invoke w k, Known w k (with_timeout (timeoutMs cfg) (process w k))])
      [0..<maxRetries cfg + 1])"
  from assms obtain e where e: "with_timeout (timeoutMs cfg) (process w (maxRetries cfg)) = Error e"
    by blast
  have a: "attempts process (timeoutMs cfg) w 0 (maxRetries cfg)
      = (?evs, with_timeout (timeoutMs cfg) (process w (maxRetries cfg)))"
    using assms attempts_all_fail [where limit = "timeoutMs cfg" and process = process and w = w
        and k = 0 and n = "maxRetries cfg"]
    by simp
  have w: "work cfg process encode writable now st w
      = (?evs, Failure (item_id w) e now, Inr (st\<lparr>failures := failures st @ [(item_id w, e)]\<rparr>))"
    unfolding work_def a using e by (simp add: recordFailure_def)
  have n: "invocations ?evs = maxRetries cfg + 1"
    unfolding invocations_pairs by simp
  show ?thesis
    using w n e by simp
qed

theorem retry_exhaustion_witness:
  "work
      \<lparr>outputDir = ''imgs'', concurrency = 3, maxRounds = 300, settleRounds = 6,
        timeoutMs = 900, maxRetries = 2, resume = True\<rparr>
      (\<lambda>w k. if k = 1 then (1000, Done ''imgs/a.png'' 10) else (5, Error FetchError))
      (\<lambda>r. record_id r) (\<lambda>ls. True) 7
      \<lparr>journal = [], seen = {}, failures = []\<rparr>
      \<lparr>item_id = ''a'', sourceLocator = ''u/a''\<rparr>
    = ([Invoke \<lparr>item_id = ''a'', sourceLocator = ''u/a''\<rparr> 0,
        Known \<lparr>item_id = ''a'', sourceLocator = ''u/a''\<rparr> 0 (Error FetchError),
        Invoke \<lparr>item_id = ''a'', sourceLocator = ''u/a''\<rparr> 1,
        Known \<lparr>item_id = ''a'', sourceLocator = ''u/a''\<rparr> 1 (Error TimeoutError),
        Invoke \<lparr>item_id = ''a'', sourceLocator = ''u/a''\<rparr> 2,
        Known \<lparr>item_id = ''a'', sourceLocator = ''u/a''\<rparr> 2 (Error FetchError)],
       Failure ''a'' FetchError 7,
       Inr \<lparr>journal = [], seen = {}, failures = [(''a'', FetchError)]\<rparr>)"
  using retry_exhaustion [of
      "\<lparr>outputDir = ''imgs'', concurrency = 3, maxRounds = 300, settleRounds = 6,
        timeoutMs = 900, maxRetries = 2, resume = True\<rparr>"
      "\<lambda>w k. if k = 1 then (1000, Done ''imgs/a.png'' 10) else (5, Error FetchError)"
      "\<lparr>item_id = ''a'', sourceLocator = ''u/a''\<rparr>"
      "\<lambda>r. record_id r" "\<lambda>ls. True" 7
      "\<lparr>journal = [], seen = {}, failures = []\<rparr>"]
  by (simp add: with_timeout_def invocations_pairs upt_conv_Cons)

end
